theory Spec2Isabelle
  imports Main
begin

section \<open>The user-profile dialog (client/src/components/user-profile-modal.tsx)\<close>

text \<open>
  The component \<open>UserProfileModal\<close> is a React function component. Its state lives in
  hooks: \<open>useState\<close> for \<open>viewMode\<close>, two \<open>useForm\<close> instances, one \<open>useQuery\<close> and two
  \<open>useMutation\<close> instances. The embedding makes that state one record and every callback
  of the component a function from state to state. What the component sends to its
  collaborators (toasts, HTTP requests, cache invalidations, calls of the host's
  \<open>onOpenChange\<close>) is appended to logs inside the record, so that "exactly one
  notification" or "no request" are statements about those logs.
\<close>

subsection \<open>Data\<close>

text \<open>\<open>type ProfileForm = z.infer<typeof profileSchema>\<close>: three optional strings.\<close>

record ProfileForm =
  fullName :: "string option"
  email :: "string option"
  mobile :: "string option"

text \<open>\<open>type PasswordForm = z.infer<typeof passwordSchema>\<close>: three strings.\<close>

record PasswordForm =
  currentPassword :: string
  newPassword :: string
  confirmPassword :: string

text \<open>
  \<open>interface UserProfile\<close> (lines 81-86), also the shape read from the response of the
  profile PATCH. The fields carry the prefix \<open>profile_\<close> because a record field is a
  global constant and \<open>fullName\<close>, \<open>email\<close>, \<open>mobile\<close> are taken by \<open>ProfileForm\<close>.
\<close>

record UserProfile =
  profile_fullName :: "string option"
  profile_email :: "string option"
  profile_mobile :: "string option"
  profile_lastLogin :: "string option"

text \<open>\<open>type ViewMode = "view" | "edit" | "password"\<close> (line 56).\<close>

datatype ViewMode = VM_view | VM_edit | VM_password

text \<open>The two values of the \<open>Tabs\<close> component inside the edit surface (lines 322-332).\<close>

datatype TabValue = Tab_profile | Tab_password

text \<open>The argument of \<open>toast({title, description, variant})\<close>; an omitted key is \<open>None\<close>.\<close>

record Toast =
  title :: string
  description :: "string option"
  variant :: "string option"

text \<open>
  A call \<open>apiRequest(method, url, data)\<close>. The body is the list of the keys of \<open>data\<close>
  with their values, in the order of the object literal.
\<close>

record ApiRequest =
  req_method :: string
  req_url :: string
  req_body :: "(string \<times> string) list"

text \<open>A query key \<open>[a, user?.id, b]\<close>.\<close>

type_synonym QueryKey = "string \<times> string option \<times> string"

text \<open>A validation issue of the schema library: the path of the field and the message.\<close>

type_synonym ZodIssue = "string list \<times> string"

text \<open>
  The state of one mounted \<open>UserProfileModal\<close>.
  \<^item> \<open>dialog_open\<close> is the prop \<open>open\<close>, \<open>user_id\<close> is \<open>user?.id\<close> from \<open>useAuth()\<close>;
  \<^item> \<open>viewMode\<close> is the \<open>useState\<close> cell, \<open>activeTab\<close> the value held by \<open>Tabs\<close>;
  \<^item> \<open>profileForm\<close>, \<open>passwordForm\<close> are the values of the two forms;
  \<^item> \<open>userProfile\<close> is \<open>data\<close> of the \<open>useQuery\<close>;
  \<^item> \<open>profileMutation_pending\<close>, \<open>passwordMutation_pending\<close> are the status of the two
    mutations themselves: pending from the call of \<open>mutate\<close> until the request settles;
  \<^item> \<open>profilePending\<close>, \<open>passwordPending\<close> are \<open>updateProfileMutation.isPending\<close> and
    \<open>updatePasswordMutation.isPending\<close> as the last render of the component read them;
  \<^item> \<open>toasts\<close>, \<open>requests\<close>, \<open>invalidated\<close>, \<open>onOpenChange_calls\<close> log the calls of
    \<open>toast\<close>, \<open>apiRequest\<close>, \<open>queryClient.invalidateQueries\<close> and \<open>onOpenChange\<close>.
\<close>

record ModalState =
  dialog_open :: bool
  user_id :: "string option"
  viewMode :: ViewMode
  activeTab :: TabValue
  profileForm :: ProfileForm
  passwordForm :: PasswordForm
  userProfile :: "UserProfile option"
  profileMutation_pending :: bool
  passwordMutation_pending :: bool
  profilePending :: bool
  passwordPending :: bool
  toasts :: "Toast list"
  requests :: "ApiRequest list"
  invalidated :: "QueryKey list"
  onOpenChange_calls :: "bool list"

text \<open>The specification's \<open>Mode\<close>, a flat enumeration of the three surfaces.\<close>

datatype Mode = View | EditProfile | EditPin

subsection \<open>JavaScript operators on optional strings\<close>

text \<open>\<open>x || ""\<close> for \<open>x : string | undefined\<close>: a falsy \<open>x\<close> (absent or empty) gives \<open>""\<close>.\<close>

definition js_or_empty :: "string option \<Rightarrow> string" where
  "js_or_empty x = (case x of None \<Rightarrow> '''' | Some v \<Rightarrow> if v = '''' then '''' else v)"

text \<open>
  The specification writes the same defaulting with \<open>??\<close>: only an absent value is
  replaced. This definition follows the specification's words and is compared with
  \<open>js_or_empty\<close> below.
\<close>

definition spec_nullish_empty :: "string option \<Rightarrow> string" where
  "spec_nullish_empty x = (case x of None \<Rightarrow> '''' | Some v \<Rightarrow> v)"

text \<open>\<open>`${user?.id}`\<close> inside a template literal: an absent id prints as \<open>undefined\<close>.\<close>

definition template_id :: "string option \<Rightarrow> string" where
  "template_id uid = (case uid of None \<Rightarrow> ''undefined'' | Some i \<Rightarrow> i)"

subsection \<open>Validation schemas (lines 33-46)\<close>

text \<open>
  The schema combinators of the validation library, as far as the two schemas use them. A
  failed check of a string adds an issue at the field's path and lets validation go on,
  so an object-level refinement still runs when a field check has failed.
  The email grammar is the library's; it is the parameter \<open>is_email\<close>.
\<close>

definition z_string_min :: "nat \<Rightarrow> string \<Rightarrow> string list \<Rightarrow> string \<Rightarrow> ZodIssue list" where
  "z_string_min n msg path v = (if length v < n then [(path, msg)] else [])"

definition z_string_email :: "(string \<Rightarrow> bool) \<Rightarrow> string \<Rightarrow> string list \<Rightarrow> string \<Rightarrow> ZodIssue list" where
  "z_string_email is_email msg path v = (if is_email v then [] else [(path, msg)])"

definition z_optional :: "('a \<Rightarrow> ZodIssue list) \<Rightarrow> 'a option \<Rightarrow> ZodIssue list" where
  "z_optional check v = (case v of None \<Rightarrow> [] | Some x \<Rightarrow> check x)"

definition z_literal :: "string \<Rightarrow> string list \<Rightarrow> string option \<Rightarrow> ZodIssue list" where
  "z_literal lit path v = (if v = Some lit then [] else [(path, ''Invalid literal value'')])"

text \<open>\<open>a.or(b)\<close>: valid when either side is; otherwise the issues of the first side.\<close>

definition z_or :: "('a \<Rightarrow> ZodIssue list) \<Rightarrow> ('a \<Rightarrow> ZodIssue list) \<Rightarrow> 'a \<Rightarrow> ZodIssue list" where
  "z_or a b v = (if a v = [] then [] else if b v = [] then [] else a v)"

definition z_string :: "string \<Rightarrow> ZodIssue list" where
  "z_string v = []"

definition profileSchema :: "(string \<Rightarrow> bool) \<Rightarrow> ProfileForm \<Rightarrow> ZodIssue list" where
  "profileSchema is_email d =
     z_optional z_string (fullName d)
     @ z_or (z_optional (z_string_email is_email ''Invalid email address'' [''email'']))
            (z_literal '''' [''email'']) (email d)
     @ z_optional z_string (mobile d)"

definition passwordSchema :: "PasswordForm \<Rightarrow> ZodIssue list" where
  "passwordSchema d =
     z_string_min 1 ''Current PIN is required'' [''currentPassword''] (currentPassword d)
     @ z_string_min 4 ''PIN must be at least 4 characters'' [''newPassword''] (newPassword d)
     @ z_string_min 1 ''Confirm PIN is required'' [''confirmPassword''] (confirmPassword d)
     @ (if newPassword d = confirmPassword d then []
        else [([''confirmPassword''], ''PINs don't match'')])"

subsection \<open>Hooks: default values, query key, effects (lines 63-108)\<close>

definition profileForm_defaultValues :: ProfileForm where
  "profileForm_defaultValues = \<lparr>fullName = Some '''', email = Some '''', mobile = Some ''''\<rparr>"

definition passwordForm_defaultValues :: PasswordForm where
  "passwordForm_defaultValues = \<lparr>currentPassword = '''', newPassword = '''', confirmPassword = ''''\<rparr>"

text \<open>\<open>queryKey: ["/api/users", user?.id, "profile"]\<close> of the \<open>useQuery\<close> (line 89).\<close>

definition useQuery_queryKey :: "ModalState \<Rightarrow> QueryKey" where
  "useQuery_queryKey s = (''/api/users'', user_id s, ''profile'')"

text \<open>\<open>enabled: !!user?.id && open\<close> (line 90); an empty id is falsy.\<close>

definition useQuery_enabled :: "ModalState \<Rightarrow> bool" where
  "useQuery_enabled s = ((case user_id s of None \<Rightarrow> False | Some i \<Rightarrow> i \<noteq> '''') \<and> dialog_open s)"

definition setViewMode :: "ViewMode \<Rightarrow> ModalState \<Rightarrow> ModalState" where
  "setViewMode m s = s\<lparr>viewMode := m\<rparr>"

text \<open>The body of the effect of lines 93-101.\<close>

definition profileSyncEffect :: "ModalState \<Rightarrow> ModalState" where
  "profileSyncEffect s =
     (case userProfile s of
        None \<Rightarrow> s
      | Some p \<Rightarrow> s\<lparr>profileForm :=
          \<lparr>fullName = Some (js_or_empty (profile_fullName p)),
           email = Some (js_or_empty (profile_email p)),
           mobile = Some (js_or_empty (profile_mobile p))\<rparr>\<rparr>)"

text \<open>The body of the effect of lines 103-108; \<open>passwordForm.reset()\<close> restores the defaults.\<close>

definition closeResetEffect :: "ModalState \<Rightarrow> ModalState" where
  "closeResetEffect s =
     (if \<not> dialog_open s
      then (setViewMode VM_view s)\<lparr>passwordForm := passwordForm_defaultValues\<rparr>
      else s)"

subsection \<open>Mutations (lines 110-161)\<close>

definition updateProfileMutation_mutationFn :: "string option \<Rightarrow> ProfileForm \<Rightarrow> ApiRequest" where
  "updateProfileMutation_mutationFn uid d =
     \<lparr>req_method = ''PATCH'',
      req_url = ''/api/users/'' @ template_id uid @ ''/profile'',
      req_body = List.map_filter (\<lambda>(k, v). map_option (Pair k) v)
                   [(''fullName'', fullName d), (''email'', email d), (''mobile'', mobile d)]\<rparr>"

definition updateProfileMutation_onSuccess :: "UserProfile \<Rightarrow> ModalState \<Rightarrow> ModalState" where
  "updateProfileMutation_onSuccess d s =
     (let s1 = s\<lparr>invalidated := invalidated s @ [(''/api/users'', user_id s, ''profile'')]\<rparr>;
          s2 = s1\<lparr>profileForm :=
                 \<lparr>fullName = Some (js_or_empty (profile_fullName d)),
                  email = Some (js_or_empty (profile_email d)),
                  mobile = Some (js_or_empty (profile_mobile d))\<rparr>\<rparr>;
          s3 = s2\<lparr>toasts := toasts s2 @
                 [\<lparr>title = ''Profile updated successfully'', description = None, variant = None\<rparr>]\<rparr>
      in setViewMode VM_view s3)"

definition updateProfileMutation_onError :: "string \<Rightarrow> ModalState \<Rightarrow> ModalState" where
  "updateProfileMutation_onError message s =
     s\<lparr>toasts := toasts s @
        [\<lparr>title = ''Error updating profile'', description = Some message,
          variant = Some ''destructive''\<rparr>]\<rparr>"

definition updatePasswordMutation_mutationFn :: "string option \<Rightarrow> PasswordForm \<Rightarrow> ApiRequest" where
  "updatePasswordMutation_mutationFn uid d =
     \<lparr>req_method = ''PATCH'',
      req_url = ''/api/users/'' @ template_id uid @ ''/password'',
      req_body = [(''currentPin'', currentPassword d), (''newPin'', newPassword d)]\<rparr>"

definition updatePasswordMutation_onSuccess :: "ModalState \<Rightarrow> ModalState" where
  "updatePasswordMutation_onSuccess s =
     (let s1 = s\<lparr>toasts := toasts s @
                 [\<lparr>title = ''Security PIN updated successfully'', description = None,
                   variant = None\<rparr>]\<rparr>;
          s2 = s1\<lparr>passwordForm := passwordForm_defaultValues\<rparr>
      in setViewMode VM_view s2)"

definition updatePasswordMutation_onError :: "string \<Rightarrow> ModalState \<Rightarrow> ModalState" where
  "updatePasswordMutation_onError message s =
     s\<lparr>toasts := toasts s @
        [\<lparr>title = ''Error updating Security PIN'', description = Some message,
          variant = Some ''destructive''\<rparr>]\<rparr>"

text \<open>
  \<open>mutation.mutate(data)\<close>: the mutation becomes pending and \<open>mutationFn\<close> issues its
  request. \<open>mutate\<close> returns nothing and never throws: the outcome reaches the component
  only through \<open>onSuccess\<close> or \<open>onError\<close>. Neither \<open>mutate\<close> nor the submit handlers
  around it (lines 155-161) look at \<open>isPending\<close>. The component learns of the new status
  at its next render.
\<close>

definition updateProfileMutation_mutate :: "ProfileForm \<Rightarrow> ModalState \<Rightarrow> ModalState" where
  "updateProfileMutation_mutate d s =
     s\<lparr>profileMutation_pending := True,
       requests := requests s @ [updateProfileMutation_mutationFn (user_id s) d]\<rparr>"

definition updatePasswordMutation_mutate :: "PasswordForm \<Rightarrow> ModalState \<Rightarrow> ModalState" where
  "updatePasswordMutation_mutate d s =
     s\<lparr>passwordMutation_pending := True,
       requests := requests s @ [updatePasswordMutation_mutationFn (user_id s) d]\<rparr>"

text \<open>
  The promise of \<open>mutationFn\<close> settles: \<open>Inl message\<close> is a rejection with
  \<open>error.message = message\<close>, \<open>Inr d\<close> a fulfilment with the parsed response. The mutation
  leaves the pending state and the matching callback runs. The result is a state in both
  branches: the rejection is consumed by \<open>onError\<close>.
\<close>

definition updateProfileMutation_settled :: "string + UserProfile \<Rightarrow> ModalState \<Rightarrow> ModalState" where
  "updateProfileMutation_settled r s =
     (case r of
        Inr d \<Rightarrow> updateProfileMutation_onSuccess d (s\<lparr>profileMutation_pending := False\<rparr>)
      | Inl message \<Rightarrow> updateProfileMutation_onError message
          (s\<lparr>profileMutation_pending := False\<rparr>))"

definition updatePasswordMutation_settled :: "string + unit \<Rightarrow> ModalState \<Rightarrow> ModalState" where
  "updatePasswordMutation_settled r s =
     (case r of
        Inr _ \<Rightarrow> updatePasswordMutation_onSuccess (s\<lparr>passwordMutation_pending := False\<rparr>)
      | Inl message \<Rightarrow> updatePasswordMutation_onError message
          (s\<lparr>passwordMutation_pending := False\<rparr>))"

definition onProfileSubmit :: "ProfileForm \<Rightarrow> ModalState \<Rightarrow> ModalState" where
  "onProfileSubmit d s = updateProfileMutation_mutate d s"

definition onPasswordSubmit :: "PasswordForm \<Rightarrow> ModalState \<Rightarrow> ModalState" where
  "onPasswordSubmit d s = updatePasswordMutation_mutate d s"

text \<open>
  \<open>form.handleSubmit(onValid)\<close> with \<open>zodResolver(schema)\<close>: the callback runs on the form's
  values only when the schema reports no issue.
\<close>

definition profileForm_handleSubmit :: "(string \<Rightarrow> bool) \<Rightarrow> ModalState \<Rightarrow> ModalState" where
  "profileForm_handleSubmit is_email s =
     (if profileSchema is_email (profileForm s) = [] then onProfileSubmit (profileForm s) s else s)"

definition passwordForm_handleSubmit :: "ModalState \<Rightarrow> ModalState" where
  "passwordForm_handleSubmit s =
     (if passwordSchema (passwordForm s) = [] then onPasswordSubmit (passwordForm s) s else s)"

definition handleClose :: "ModalState \<Rightarrow> ModalState" where
  "handleClose s = setViewMode VM_view (s\<lparr>onOpenChange_calls := onOpenChange_calls s @ [False]\<rparr>)"

subsection \<open>Rendering (lines 189-539)\<close>

text \<open>
  \<open>DialogContent\<close> is rendered while \<open>open\<close> holds; inside it line 536 chooses
  \<open>renderViewMode()\<close> for \<open>viewMode === "view"\<close> and \<open>renderEditMode()\<close> otherwise, and the
  \<open>Tabs\<close> component renders the content of its active tab only.
\<close>

definition renders_view :: "ModalState \<Rightarrow> bool" where
  "renders_view s = (dialog_open s \<and> viewMode s = VM_view)"

definition renders_edit :: "ModalState \<Rightarrow> bool" where
  "renders_edit s = (dialog_open s \<and> viewMode s \<noteq> VM_view)"

definition renders_profile_tab :: "ModalState \<Rightarrow> bool" where
  "renders_profile_tab s = (renders_edit s \<and> activeTab s = Tab_profile)"

definition renders_password_tab :: "ModalState \<Rightarrow> bool" where
  "renders_password_tab s = (renders_edit s \<and> activeTab s = Tab_password)"

text \<open>
  The submit buttons (lines 421-428 and 504-511). Their \<open>disabled\<close> attribute and label are
  computed during render from the \<open>isPending\<close> values that render read.
\<close>

definition button_save_profile_disabled :: "ModalState \<Rightarrow> bool" where
  "button_save_profile_disabled s = profilePending s"

definition button_save_profile_label :: "ModalState \<Rightarrow> string" where
  "button_save_profile_label s = (if profilePending s then ''Saving...'' else ''Save Changes'')"

definition button_update_password_disabled :: "ModalState \<Rightarrow> bool" where
  "button_update_password_disabled s = passwordPending s"

definition button_update_password_label :: "ModalState \<Rightarrow> string" where
  "button_update_password_label s = (if passwordPending s then ''Updating...'' else ''Update PIN'')"

text \<open>
  The specification's \<open>Mode\<close> read off a state: \<open>View\<close> for \<open>viewMode = "view"\<close>, otherwise
  the edit surface with the form of the active tab.
\<close>

definition mode_of :: "ModalState \<Rightarrow> Mode" where
  "mode_of s =
     (if viewMode s = VM_view then View
      else if activeTab s = Tab_password then EditPin else EditProfile)"

subsection \<open>Events\<close>

text \<open>
  What can happen to a mounted component.
  \<^item> \<open>OpenProp b\<close>: the host renders the component with \<open>open = b\<close>;
  \<^item> \<open>DialogDismiss\<close>: the \<open>Dialog\<close> asks to close (\<open>onOpenChange\<close> is passed through to it);
  \<^item> \<open>Render\<close>: the component renders again and reads \<open>isPending\<close> of both mutations;
  \<^item> \<open>QueryData p\<close>: a fetch of the profile query resolves with the record \<open>p\<close>;
  \<^item> \<open>ProfileSettled r\<close>, \<open>PasswordSettled r\<close>: the request of a pending mutation settles;
  \<^item> the others are clicks on the buttons and tabs and input into the fields, named after
    their \<open>data-testid\<close>.
\<close>

datatype Event =
    OpenProp bool
  | DialogDismiss
  | Render
  | QueryData UserProfile
  | ProfileSettled "string + UserProfile"
  | PasswordSettled "string + unit"
  | Click_close_profile
  | Click_edit_profile
  | Click_tab TabValue
  | Click_cancel_profile
  | Click_cancel_password
  | Click_save_profile
  | Click_update_password
  | Input_fullname string
  | Input_email string
  | Input_mobile string
  | Input_current_password string
  | Input_new_password string
  | Input_confirm_password string

text \<open>
  One event. An effect runs when one of its dependencies has changed: the close effect
  (dependencies \<open>[open, passwordForm]\<close>, line 108) when \<open>open\<close> changes, the sync effect
  (dependencies \<open>[userProfile, profileForm]\<close>, line 101) when \<open>userProfile\<close> changes. The query
  keeps its \<open>data\<close> object when a fetch resolves with a record equal to the one it holds,
  so such a fetch changes no dependency and the sync effect does not run. The form objects
  are stable. A control reacts only while it is rendered, a submit button only while the
  last render left it enabled, and a mutation settles only while it is pending. A click on
  an enabled submit button validates and, when valid, calls \<open>mutate\<close>; the button's
  \<open>disabled\<close> attribute follows only with the next \<open>Render\<close>, which may come at any later
  point. Entering the edit surface mounts \<open>Tabs\<close> with \<open>defaultValue="profile"\<close>.
\<close>

fun step :: "(string \<Rightarrow> bool) \<Rightarrow> Event \<Rightarrow> ModalState \<Rightarrow> ModalState" where
  "step ie (OpenProp b) s =
     (if dialog_open s = b then s else closeResetEffect (s\<lparr>dialog_open := b\<rparr>))"
| "step ie DialogDismiss s =
     (if dialog_open s then s\<lparr>onOpenChange_calls := onOpenChange_calls s @ [False]\<rparr> else s)"
| "step ie Render s =
     s\<lparr>profilePending := profileMutation_pending s,
       passwordPending := passwordMutation_pending s\<rparr>"
| "step ie (QueryData p) s =
     (if userProfile s = Some p then s else profileSyncEffect (s\<lparr>userProfile := Some p\<rparr>))"
| "step ie (ProfileSettled r) s =
     (if profileMutation_pending s then updateProfileMutation_settled r s else s)"
| "step ie (PasswordSettled r) s =
     (if passwordMutation_pending s then updatePasswordMutation_settled r s else s)"
| "step ie Click_close_profile s = (if renders_view s then handleClose s else s)"
| "step ie Click_edit_profile s =
     (if renders_view s then (setViewMode VM_edit s)\<lparr>activeTab := Tab_profile\<rparr> else s)"
| "step ie (Click_tab t) s = (if renders_edit s then s\<lparr>activeTab := t\<rparr> else s)"
| "step ie Click_cancel_profile s = (if renders_profile_tab s then setViewMode VM_view s else s)"
| "step ie Click_cancel_password s = (if renders_password_tab s then setViewMode VM_view s else s)"
| "step ie Click_save_profile s =
     (if renders_profile_tab s \<and> \<not> button_save_profile_disabled s
      then profileForm_handleSubmit ie s else s)"
| "step ie Click_update_password s =
     (if renders_password_tab s \<and> \<not> button_update_password_disabled s
      then passwordForm_handleSubmit s else s)"
| "step ie (Input_fullname v) s =
     (if renders_profile_tab s then s\<lparr>profileForm := (profileForm s)\<lparr>fullName := Some v\<rparr>\<rparr> else s)"
| "step ie (Input_email v) s =
     (if renders_profile_tab s then s\<lparr>profileForm := (profileForm s)\<lparr>email := Some v\<rparr>\<rparr> else s)"
| "step ie (Input_mobile v) s =
     (if renders_profile_tab s then s\<lparr>profileForm := (profileForm s)\<lparr>mobile := Some v\<rparr>\<rparr> else s)"
| "step ie (Input_current_password v) s =
     (if renders_password_tab s
      then s\<lparr>passwordForm := (passwordForm s)\<lparr>currentPassword := v\<rparr>\<rparr> else s)"
| "step ie (Input_new_password v) s =
     (if renders_password_tab s
      then s\<lparr>passwordForm := (passwordForm s)\<lparr>newPassword := v\<rparr>\<rparr> else s)"
| "step ie (Input_confirm_password v) s =
     (if renders_password_tab s
      then s\<lparr>passwordForm := (passwordForm s)\<lparr>confirmPassword := v\<rparr>\<rparr> else s)"

text \<open>A sequence of events, oldest first.\<close>

fun run :: "(string \<Rightarrow> bool) \<Rightarrow> Event list \<Rightarrow> ModalState \<Rightarrow> ModalState" where
  "run ie [] s = s"
| "run ie (e # es) s = run ie es (step ie e s)"

text \<open>The state right after mounting: \<open>useState("view")\<close> and the forms' default values.\<close>

definition initial :: "bool \<Rightarrow> string option \<Rightarrow> ModalState" where
  "initial op uid =
     \<lparr>dialog_open = op, user_id = uid, viewMode = VM_view, activeTab = Tab_profile,
      profileForm = profileForm_defaultValues, passwordForm = passwordForm_defaultValues,
      userProfile = None, profileMutation_pending = False, passwordMutation_pending = False,
      profilePending = False, passwordPending = False,
      toasts = [], requests = [], invalidated = [], onOpenChange_calls = []\<rparr>"

subsection \<open>Predicates on states and events used in the statements\<close>

text \<open>The dialog is closed, showing the view surface, with an empty PIN form.\<close>

definition closed_view :: "ModalState \<Rightarrow> bool" where
  "closed_view s =
     (\<not> dialog_open s \<and> viewMode s = VM_view \<and> passwordForm s = passwordForm_defaultValues)"

text \<open>
  The events that lead to a call of \<open>profileForm.reset\<close> when the query holds \<open>held\<close>: a
  fetch resolving with a record other than \<open>held\<close> (lines 93-101) and the success of the
  profile mutation (lines 115-121). Its failure (lines 125-131) resets nothing.
\<close>

fun resets_profileForm :: "UserProfile option \<Rightarrow> Event \<Rightarrow> bool" where
  "resets_profileForm held (QueryData p) = (held \<noteq> Some p)"
| "resets_profileForm held (ProfileSettled (Inr d)) = True"
| "resets_profileForm held e = False"

text \<open>The events that settle the profile mutation, and those that settle the PIN mutation.\<close>

fun settles_profile :: "Event \<Rightarrow> bool" where
  "settles_profile (ProfileSettled r) = True"
| "settles_profile e = False"

fun settles_password :: "Event \<Rightarrow> bool" where
  "settles_password (PasswordSettled r) = True"
| "settles_password e = False"

text \<open>An email grammar for the concrete examples: the string contains an \<open>@\<close>.\<close>

definition example_is_email :: "string \<Rightarrow> bool" where
  "example_is_email e = (CHR ''@'' \<in> set e)"

section \<open>Properties\<close>

lemmas handler_defs =
  updateProfileMutation_settled_def updateProfileMutation_onSuccess_def
  updateProfileMutation_onError_def updatePasswordMutation_settled_def
  updatePasswordMutation_onSuccess_def updatePasswordMutation_onError_def
  setViewMode_def mode_of_def useQuery_queryKey_def passwordForm_defaultValues_def

lemmas render_defs =
  renders_view_def renders_edit_def renders_profile_tab_def renders_password_tab_def
  button_save_profile_disabled_def button_update_password_disabled_def
  button_save_profile_label_def button_update_password_label_def

lemmas submit_defs =
  profileForm_handleSubmit_def passwordForm_handleSubmit_def onProfileSubmit_def
  onPasswordSubmit_def updateProfileMutation_mutate_def updatePasswordMutation_mutate_def
  updateProfileMutation_mutationFn_def updatePasswordMutation_mutationFn_def

lemmas schema_defs =
  profileSchema_def passwordSchema_def z_string_min_def z_string_email_def z_optional_def
  z_literal_def z_or_def z_string_def

lemmas example_defs =
  initial_def profileForm_defaultValues_def closeResetEffect_def profileSyncEffect_def
  handleClose_def template_id_def js_or_empty_def spec_nullish_empty_def
  example_is_email_def List.map_filter_def

subsection \<open>The two defaulting operators agree on optional strings\<close>

lemma js_or_empty_nullish: "js_or_empty x = spec_nullish_empty x"
  by (simp add: js_or_empty_def spec_nullish_empty_def split: option.splits)

subsection \<open>Validation\<close>

lemma passwordSchema_valid_iff:
  "passwordSchema d = [] \<longleftrightarrow>
     currentPassword d \<noteq> [] \<and> 4 \<le> length (newPassword d) \<and> confirmPassword d \<noteq> []
     \<and> newPassword d = confirmPassword d"
  by (auto simp: schema_defs Suc_le_eq)

lemma passwordSchema_paths: "i \<in> set (passwordSchema d) \<Longrightarrow> fst i \<noteq> []"
  by (auto simp: schema_defs split: if_splits)

lemma profileSchema_invalid_iff:
  "profileSchema ie d \<noteq> [] \<longleftrightarrow> (\<exists>e. email d = Some e \<and> e \<noteq> [] \<and> \<not> ie e)"
  by (auto simp: schema_defs split: option.splits)

text \<open>
  Claim C2. The PIN form is valid exactly when \<open>currentPassword\<close> is non-empty,
  \<open>newPassword\<close> has at least 4 characters, \<open>confirmPassword\<close> is non-empty and the new PIN
  equals its confirmation. When the two differ, the issue \<open>PINs don't match\<close> is reported
  at the path \<open>confirmPassword\<close>; no issue of the schema has the empty (form-level) path.
  When validation fails, submitting changes nothing: no request is issued.
\<close>

theorem pin_validation:
  "(passwordSchema d = [] \<longleftrightarrow>
      currentPassword d \<noteq> [] \<and> 4 \<le> length (newPassword d) \<and> confirmPassword d \<noteq> []
      \<and> newPassword d = confirmPassword d)
   \<and> (newPassword d \<noteq> confirmPassword d \<longrightarrow>
        ([''confirmPassword''], ''PINs don't match'') \<in> set (passwordSchema d))
   \<and> (\<forall>i \<in> set (passwordSchema d). fst i \<noteq> [])
   \<and> (passwordSchema (passwordForm s) \<noteq> [] \<longrightarrow>
        passwordForm_handleSubmit s = s \<and> step ie Click_update_password s = s)"
proof (intro conjI)
  show "passwordSchema d = [] \<longleftrightarrow>
      currentPassword d \<noteq> [] \<and> 4 \<le> length (newPassword d) \<and> confirmPassword d \<noteq> []
      \<and> newPassword d = confirmPassword d"
    by (rule passwordSchema_valid_iff)
  show "newPassword d \<noteq> confirmPassword d \<longrightarrow>
        ([''confirmPassword''], ''PINs don't match'') \<in> set (passwordSchema d)"
    by (simp add: schema_defs)
  show "\<forall>i \<in> set (passwordSchema d). fst i \<noteq> []"
    by (simp add: passwordSchema_paths)
  show "passwordSchema (passwordForm s) \<noteq> [] \<longrightarrow>
        passwordForm_handleSubmit s = s \<and> step ie Click_update_password s = s"
    by (simp add: passwordForm_handleSubmit_def)
qed

theorem pin_validation_witness:
  "newPassword \<lparr>currentPassword = ''0000'', newPassword = ''1234'', confirmPassword = ''1235''\<rparr>
     \<noteq> confirmPassword \<lparr>currentPassword = ''0000'', newPassword = ''1234'', confirmPassword = ''1235''\<rparr>
   \<and> passwordSchema \<lparr>currentPassword = ''0000'', newPassword = ''1234'', confirmPassword = ''1235''\<rparr>
       = [([''confirmPassword''], ''PINs don't match'')]
   \<and> passwordSchema (passwordForm
        (run example_is_email
           [Click_edit_profile, Click_tab Tab_password, Input_current_password ''0000'',
            Input_new_password ''1234'', Input_confirm_password ''1235'']
           (initial True (Some ''42'')))) \<noteq> []
   \<and> requests (step example_is_email Click_update_password
        (run example_is_email
           [Click_edit_profile, Click_tab Tab_password, Input_current_password ''0000'',
            Input_new_password ''1234'', Input_confirm_password ''1235'']
           (initial True (Some ''42'')))) = []"
  using pin_validation
    [where d = "\<lparr>currentPassword = ''0000'', newPassword = ''1234'', confirmPassword = ''1235''\<rparr>"
       and ie = example_is_email
       and s = "run example_is_email
           [Click_edit_profile, Click_tab Tab_password, Input_current_password ''0000'',
            Input_new_password ''1234'', Input_confirm_password ''1235'']
           (initial True (Some ''42''))"]
  by (simp add: schema_defs render_defs example_defs setViewMode_def)

text \<open>
  Claim C7. Validation of the profile form fails exactly when \<open>email\<close> is present,
  non-empty and not accepted by the email grammar. An empty and an absent email are valid,
  \<open>fullName\<close> and \<open>mobile\<close> do not influence the result, and when validation fails,
  submitting changes nothing: no request is issued.
\<close>

theorem profile_validation:
  "(profileSchema ie d \<noteq> [] \<longleftrightarrow> (\<exists>e. email d = Some e \<and> e \<noteq> [] \<and> \<not> ie e))
   \<and> profileSchema ie (d\<lparr>email := Some ''''\<rparr>) = []
   \<and> profileSchema ie (d\<lparr>email := None\<rparr>) = []
   \<and> profileSchema ie (d\<lparr>fullName := n, mobile := m\<rparr>) = profileSchema ie d
   \<and> (profileSchema ie (profileForm s) \<noteq> [] \<longrightarrow>
        profileForm_handleSubmit ie s = s \<and> step ie Click_save_profile s = s)"
proof (intro conjI)
  show "profileSchema ie d \<noteq> [] \<longleftrightarrow> (\<exists>e. email d = Some e \<and> e \<noteq> [] \<and> \<not> ie e)"
    by (rule profileSchema_invalid_iff)
  show "profileSchema ie (d\<lparr>email := Some ''''\<rparr>) = []"
    by (simp add: schema_defs split: option.splits)
  show "profileSchema ie (d\<lparr>email := None\<rparr>) = []"
    by (simp add: schema_defs split: option.splits)
  show "profileSchema ie (d\<lparr>fullName := n, mobile := m\<rparr>) = profileSchema ie d"
    by (simp add: schema_defs split: option.splits)
  show "profileSchema ie (profileForm s) \<noteq> [] \<longrightarrow>
        profileForm_handleSubmit ie s = s \<and> step ie Click_save_profile s = s"
    by (simp add: profileForm_handleSubmit_def)
qed

theorem profile_validation_witness:
  "profileSchema example_is_email (profileForm
      (run example_is_email [Click_edit_profile, Input_email ''jane.x.com'']
         (initial True (Some ''42'')))) = [([''email''], ''Invalid email address'')]
   \<and> requests (step example_is_email Click_save_profile
      (run example_is_email [Click_edit_profile, Input_email ''jane.x.com'']
         (initial True (Some ''42'')))) = []
   \<and> profileSchema example_is_email
       \<lparr>fullName = Some ''Jane'', email = Some ''jane@x.com'', mobile = None\<rparr> = []"
  using profile_validation
    [where ie = example_is_email
       and d = "\<lparr>fullName = Some ''Jane'', email = Some ''jane@x.com'', mobile = None\<rparr>"
       and s = "run example_is_email [Click_edit_profile, Input_email ''jane.x.com'']
         (initial True (Some ''42''))"]
  by (simp add: schema_defs render_defs example_defs setViewMode_def)

subsection \<open>Profile synchronisation\<close>

text \<open>
  Claim C3, as amended. When a fetch resolves with a profile record other than the one the
  query already holds (the initial load, or a refetch whose data has changed), the profile
  form is overwritten with \<open>{fullName: record.fullName ?? "", email: record.email ?? "",
  mobile: record.mobile ?? ""}\<close>, whatever the form held before and whatever events came
  before: typed input is replaced. When a fetch resolves with a record equal to the one
  held, nothing changes, and the form keeps what it holds.
\<close>

theorem profile_sync_overwrites_changed:
  "(userProfile s \<noteq> Some p \<longrightarrow>
      profileForm (step ie (QueryData p) s) =
        \<lparr>fullName = Some (spec_nullish_empty (profile_fullName p)),
         email = Some (spec_nullish_empty (profile_email p)),
         mobile = Some (spec_nullish_empty (profile_mobile p))\<rparr>)
   \<and> (userProfile (run ie es s) \<noteq> Some p \<longrightarrow>
      profileForm (step ie (QueryData p) (run ie es s)) =
        \<lparr>fullName = Some (spec_nullish_empty (profile_fullName p)),
         email = Some (spec_nullish_empty (profile_email p)),
         mobile = Some (spec_nullish_empty (profile_mobile p))\<rparr>)
   \<and> (userProfile s = Some p \<longrightarrow> step ie (QueryData p) s = s)"
  by (simp add: profileSyncEffect_def js_or_empty_nullish)

theorem profile_sync_overwrites_changed_witness:
  "userProfile (run example_is_email [Click_edit_profile, Input_fullname ''New'']
      (initial True (Some ''42''))) \<noteq>
     Some \<lparr>profile_fullName = Some ''Old'', profile_email = None,
           profile_mobile = None, profile_lastLogin = None\<rparr>
   \<and> fullName (profileForm (run example_is_email [Click_edit_profile, Input_fullname ''New'']
      (initial True (Some ''42'')))) = Some ''New''
   \<and> profileForm (step example_is_email
        (QueryData \<lparr>profile_fullName = Some ''Old'', profile_email = None,
                    profile_mobile = None, profile_lastLogin = None\<rparr>)
        (run example_is_email [Click_edit_profile, Input_fullname ''New'']
           (initial True (Some ''42'')))) =
       \<lparr>fullName = Some ''Old'', email = Some '''', mobile = Some ''''\<rparr>
   \<and> userProfile (step example_is_email
        (QueryData \<lparr>profile_fullName = Some ''Old'', profile_email = None,
                    profile_mobile = None, profile_lastLogin = None\<rparr>)
        (initial True (Some ''42''))) =
       Some \<lparr>profile_fullName = Some ''Old'', profile_email = None,
             profile_mobile = None, profile_lastLogin = None\<rparr>
   \<and> step example_is_email
        (QueryData \<lparr>profile_fullName = Some ''Old'', profile_email = None,
                    profile_mobile = None, profile_lastLogin = None\<rparr>)
        (step example_is_email
          (QueryData \<lparr>profile_fullName = Some ''Old'', profile_email = None,
                      profile_mobile = None, profile_lastLogin = None\<rparr>)
          (initial True (Some ''42''))) =
       step example_is_email
        (QueryData \<lparr>profile_fullName = Some ''Old'', profile_email = None,
                    profile_mobile = None, profile_lastLogin = None\<rparr>)
        (initial True (Some ''42''))"
  using profile_sync_overwrites_changed
    [where ie = example_is_email
       and p = "\<lparr>profile_fullName = Some ''Old'', profile_email = None,
                 profile_mobile = None, profile_lastLogin = None\<rparr>"
       and es = "[Click_edit_profile, Input_fullname ''New'']"
       and s = "initial True (Some ''42'')"]
    profile_sync_overwrites_changed
    [where ie = example_is_email
       and p = "\<lparr>profile_fullName = Some ''Old'', profile_email = None,
                 profile_mobile = None, profile_lastLogin = None\<rparr>"
       and es = "[]"
       and s = "step example_is_email
          (QueryData \<lparr>profile_fullName = Some ''Old'', profile_email = None,
                      profile_mobile = None, profile_lastLogin = None\<rparr>)
          (initial True (Some ''42''))"]
  by (simp add: render_defs example_defs setViewMode_def)

text \<open>
  The claim as first stated fails. The record \<open>{fullName: "Old"}\<close> is loaded; the user saves
  the form unchanged and the update succeeds, which invalidates the query; the user types
  \<open>New\<close>; the refetch then resolves with the same record. The form still holds \<open>New\<close>, not
  the values of the record.
\<close>

theorem profile_sync_counterexample:
  "invalidated (run example_is_email
      [QueryData \<lparr>profile_fullName = Some ''Old'', profile_email = None,
                  profile_mobile = None, profile_lastLogin = None\<rparr>,
       Click_edit_profile, Click_save_profile,
       ProfileSettled (Inr \<lparr>profile_fullName = Some ''Old'', profile_email = None,
                  profile_mobile = None, profile_lastLogin = None\<rparr>),
       Click_edit_profile, Input_fullname ''New'',
       QueryData \<lparr>profile_fullName = Some ''Old'', profile_email = None,
                  profile_mobile = None, profile_lastLogin = None\<rparr>]
      (initial True (Some ''42''))) = [(''/api/users'', Some ''42'', ''profile'')]
   \<and> profileForm (run example_is_email
      [QueryData \<lparr>profile_fullName = Some ''Old'', profile_email = None,
                  profile_mobile = None, profile_lastLogin = None\<rparr>,
       Click_edit_profile, Click_save_profile,
       ProfileSettled (Inr \<lparr>profile_fullName = Some ''Old'', profile_email = None,
                  profile_mobile = None, profile_lastLogin = None\<rparr>),
       Click_edit_profile, Input_fullname ''New'',
       QueryData \<lparr>profile_fullName = Some ''Old'', profile_email = None,
                  profile_mobile = None, profile_lastLogin = None\<rparr>]
      (initial True (Some ''42''))) =
     \<lparr>fullName = Some ''New'', email = Some '''', mobile = Some ''''\<rparr>
   \<and> profileForm (run example_is_email
      [QueryData \<lparr>profile_fullName = Some ''Old'', profile_email = None,
                  profile_mobile = None, profile_lastLogin = None\<rparr>,
       Click_edit_profile, Click_save_profile,
       ProfileSettled (Inr \<lparr>profile_fullName = Some ''Old'', profile_email = None,
                  profile_mobile = None, profile_lastLogin = None\<rparr>),
       Click_edit_profile, Input_fullname ''New'',
       QueryData \<lparr>profile_fullName = Some ''Old'', profile_email = None,
                  profile_mobile = None, profile_lastLogin = None\<rparr>]
      (initial True (Some ''42''))) \<noteq>
     \<lparr>fullName = Some (spec_nullish_empty (Some ''Old'')),
      email = Some (spec_nullish_empty None), mobile = Some (spec_nullish_empty None)\<rparr>"
  by (simp add: handler_defs render_defs submit_defs schema_defs example_defs Let_def)

subsection \<open>The profile mutation\<close>

text \<open>
  Claim C1. When the profile mutation succeeds with response \<open>d\<close>: the query key of the
  profile query of the current user is invalidated, the profile form becomes the three
  values of the response (an absent one becoming \<open>""\<close>), exactly one toast is added, the
  success toast, and the mode is \<open>View\<close>.
\<close>

theorem profile_update_success:
  "invalidated (updateProfileMutation_settled (Inr d) s) = invalidated s @ [useQuery_queryKey s]
   \<and> profileForm (updateProfileMutation_settled (Inr d) s) =
       \<lparr>fullName = Some (spec_nullish_empty (profile_fullName d)),
        email = Some (spec_nullish_empty (profile_email d)),
        mobile = Some (spec_nullish_empty (profile_mobile d))\<rparr>
   \<and> toasts (updateProfileMutation_settled (Inr d) s) =
       toasts s @ [\<lparr>title = ''Profile updated successfully'', description = None, variant = None\<rparr>]
   \<and> mode_of (updateProfileMutation_settled (Inr d) s) = View"
  by (simp add: handler_defs Let_def js_or_empty_nullish)

theorem profile_update_success_witness:
  "profileMutation_pending (run example_is_email [Click_edit_profile, Click_save_profile]
      (initial True (Some ''42'')))
   \<and> profileForm (run example_is_email
        [Click_edit_profile, Click_save_profile,
         ProfileSettled (Inr \<lparr>profile_fullName = Some ''Jane'', profile_email = Some ''jane@x.com'',
                              profile_mobile = Some ''555'', profile_lastLogin = None\<rparr>)]
        (initial True (Some ''42''))) =
       \<lparr>fullName = Some ''Jane'', email = Some ''jane@x.com'', mobile = Some ''555''\<rparr>
   \<and> mode_of (run example_is_email
        [Click_edit_profile, Click_save_profile,
         ProfileSettled (Inr \<lparr>profile_fullName = Some ''Jane'', profile_email = Some ''jane@x.com'',
                              profile_mobile = Some ''555'', profile_lastLogin = None\<rparr>)]
        (initial True (Some ''42''))) = View
   \<and> toasts (run example_is_email
        [Click_edit_profile, Click_save_profile,
         ProfileSettled (Inr \<lparr>profile_fullName = Some ''Jane'', profile_email = Some ''jane@x.com'',
                              profile_mobile = Some ''555'', profile_lastLogin = None\<rparr>)]
        (initial True (Some ''42''))) =
       [\<lparr>title = ''Profile updated successfully'', description = None, variant = None\<rparr>]
   \<and> invalidated (run example_is_email
        [Click_edit_profile, Click_save_profile,
         ProfileSettled (Inr \<lparr>profile_fullName = Some ''Jane'', profile_email = Some ''jane@x.com'',
                              profile_mobile = Some ''555'', profile_lastLogin = None\<rparr>)]
        (initial True (Some ''42''))) = [(''/api/users'', Some ''42'', ''profile'')]"
  using profile_update_success
    [where d = "\<lparr>profile_fullName = Some ''Jane'', profile_email = Some ''jane@x.com'',
                 profile_mobile = Some ''555'', profile_lastLogin = None\<rparr>"
       and s = "run example_is_email [Click_edit_profile, Click_save_profile]
                  (initial True (Some ''42''))"]
  by (simp add: handler_defs render_defs submit_defs schema_defs example_defs Let_def)

text \<open>
  Claim C4. When the profile mutation fails with message \<open>m\<close>, the only changes to the
  state are the end of the mutation's pending status and one added toast, the destructive toast whose
  description is \<open>m\<close>; the result is an ordinary state, nothing is thrown on. So from a
  state showing the profile form with valid contents and no pending mutation, a submission
  followed by its failure leaves the profile form at its values from before the
  submission and the mode at \<open>EditProfile\<close>, with exactly that one toast added.
\<close>

theorem profile_update_failure:
  "updateProfileMutation_settled (Inl m) s =
     s\<lparr>profileMutation_pending := False,
       toasts := toasts s @ [\<lparr>title = ''Error updating profile'', description = Some m,
                              variant = Some ''destructive''\<rparr>]\<rparr>
   \<and> (renders_profile_tab s \<and> \<not> profilePending s \<and> profileSchema ie (profileForm s) = [] \<longrightarrow>
        profileForm (run ie [Click_save_profile, ProfileSettled (Inl m)] s) = profileForm s
        \<and> mode_of s = EditProfile
        \<and> mode_of (run ie [Click_save_profile, ProfileSettled (Inl m)] s) = EditProfile
        \<and> toasts (run ie [Click_save_profile, ProfileSettled (Inl m)] s) =
            toasts s @ [\<lparr>title = ''Error updating profile'', description = Some m,
                          variant = Some ''destructive''\<rparr>])"
  by (auto simp: handler_defs render_defs submit_defs)

theorem profile_update_failure_witness:
  "renders_profile_tab (run example_is_email [Click_edit_profile, Input_fullname ''Jane'']
      (initial True (Some ''42'')))
   \<and> \<not> profilePending (run example_is_email [Click_edit_profile, Input_fullname ''Jane'']
      (initial True (Some ''42'')))
   \<and> profileSchema example_is_email (profileForm
      (run example_is_email [Click_edit_profile, Input_fullname ''Jane'']
         (initial True (Some ''42'')))) = []
   \<and> profileForm (run example_is_email [Click_save_profile, ProfileSettled (Inl ''409: taken'')]
      (run example_is_email [Click_edit_profile, Input_fullname ''Jane'']
         (initial True (Some ''42'')))) =
       \<lparr>fullName = Some ''Jane'', email = Some '''', mobile = Some ''''\<rparr>
   \<and> mode_of (run example_is_email [Click_save_profile, ProfileSettled (Inl ''409: taken'')]
      (run example_is_email [Click_edit_profile, Input_fullname ''Jane'']
         (initial True (Some ''42'')))) = EditProfile
   \<and> toasts (run example_is_email [Click_save_profile, ProfileSettled (Inl ''409: taken'')]
      (run example_is_email [Click_edit_profile, Input_fullname ''Jane'']
         (initial True (Some ''42'')))) =
       [\<lparr>title = ''Error updating profile'', description = Some ''409: taken'',
         variant = Some ''destructive''\<rparr>]"
  using profile_update_failure
    [where ie = example_is_email and m = "''409: taken''"
       and s = "run example_is_email [Click_edit_profile, Input_fullname ''Jane'']
                  (initial True (Some ''42''))"]
  by (simp add: handler_defs render_defs submit_defs schema_defs example_defs)

subsection \<open>The PIN mutation\<close>

text \<open>
  Claim C5. When the PIN mutation succeeds, the PIN form is \<open>{"", "", ""}\<close>, exactly one
  toast is added, the success toast, the mode is \<open>View\<close>, and no cache invalidation (and no
  request) is added.
\<close>

theorem pin_update_success:
  "passwordForm (updatePasswordMutation_settled (Inr u) s) =
     \<lparr>currentPassword = '''', newPassword = '''', confirmPassword = ''''\<rparr>
   \<and> toasts (updatePasswordMutation_settled (Inr u) s) =
       toasts s @ [\<lparr>title = ''Security PIN updated successfully'', description = None,
                     variant = None\<rparr>]
   \<and> mode_of (updatePasswordMutation_settled (Inr u) s) = View
   \<and> invalidated (updatePasswordMutation_settled (Inr u) s) = invalidated s
   \<and> requests (updatePasswordMutation_settled (Inr u) s) = requests s"
  by (simp add: handler_defs Let_def)

theorem pin_update_success_witness:
  "passwordMutation_pending (run example_is_email
      [Click_edit_profile, Click_tab Tab_password, Input_current_password ''0000'',
       Input_new_password ''1234'', Input_confirm_password ''1234'', Click_update_password]
      (initial True (Some ''42'')))
   \<and> passwordForm (run example_is_email
      [Click_edit_profile, Click_tab Tab_password, Input_current_password ''0000'',
       Input_new_password ''1234'', Input_confirm_password ''1234'', Click_update_password,
       PasswordSettled (Inr ())]
      (initial True (Some ''42''))) =
       \<lparr>currentPassword = '''', newPassword = '''', confirmPassword = ''''\<rparr>
   \<and> mode_of (run example_is_email
      [Click_edit_profile, Click_tab Tab_password, Input_current_password ''0000'',
       Input_new_password ''1234'', Input_confirm_password ''1234'', Click_update_password,
       PasswordSettled (Inr ())]
      (initial True (Some ''42''))) = View
   \<and> invalidated (run example_is_email
      [Click_edit_profile, Click_tab Tab_password, Input_current_password ''0000'',
       Input_new_password ''1234'', Input_confirm_password ''1234'', Click_update_password,
       PasswordSettled (Inr ())]
      (initial True (Some ''42''))) = []"
  using pin_update_success
    [where u = "()"
       and s = "run example_is_email
          [Click_edit_profile, Click_tab Tab_password, Input_current_password ''0000'',
           Input_new_password ''1234'', Input_confirm_password ''1234'', Click_update_password]
          (initial True (Some ''42''))"]
  by (simp add: handler_defs render_defs submit_defs schema_defs example_defs Let_def)

text \<open>
  Claim C8. The request of the PIN mutation has exactly the two body keys \<open>currentPin\<close>
  and \<open>newPin\<close>, holding the form's current and new PIN; its URL names the user id; it
  does not depend on \<open>confirmPassword\<close>. Submitting a valid PIN form that is shown and not
  pending issues exactly this one request.
\<close>

theorem pin_request_payload:
  "map fst (req_body (updatePasswordMutation_mutationFn uid d)) = [''currentPin'', ''newPin'']
   \<and> req_body (updatePasswordMutation_mutationFn uid d) =
        [(''currentPin'', currentPassword d), (''newPin'', newPassword d)]
   \<and> req_url (updatePasswordMutation_mutationFn (Some i) d) = ''/api/users/'' @ i @ ''/password''
   \<and> updatePasswordMutation_mutationFn uid (d\<lparr>confirmPassword := c\<rparr>) =
        updatePasswordMutation_mutationFn uid d
   \<and> (renders_password_tab s \<and> \<not> passwordPending s \<and> passwordSchema (passwordForm s) = [] \<longrightarrow>
        requests (step ie Click_update_password s) =
          requests s @ [\<lparr>req_method = ''PATCH'',
                         req_url = ''/api/users/'' @ template_id (user_id s) @ ''/password'',
                         req_body = [(''currentPin'', currentPassword (passwordForm s)),
                                     (''newPin'', newPassword (passwordForm s))]\<rparr>])"
  by (simp add: submit_defs render_defs template_id_def)

theorem pin_request_payload_witness:
  "renders_password_tab (run example_is_email
      [Click_edit_profile, Click_tab Tab_password, Input_current_password ''0000'',
       Input_new_password ''1234'', Input_confirm_password ''1234'']
      (initial True (Some ''42'')))
   \<and> \<not> passwordPending (run example_is_email
      [Click_edit_profile, Click_tab Tab_password, Input_current_password ''0000'',
       Input_new_password ''1234'', Input_confirm_password ''1234'']
      (initial True (Some ''42'')))
   \<and> passwordSchema (passwordForm (run example_is_email
      [Click_edit_profile, Click_tab Tab_password, Input_current_password ''0000'',
       Input_new_password ''1234'', Input_confirm_password ''1234'']
      (initial True (Some ''42'')))) = []
   \<and> requests (step example_is_email Click_update_password (run example_is_email
      [Click_edit_profile, Click_tab Tab_password, Input_current_password ''0000'',
       Input_new_password ''1234'', Input_confirm_password ''1234'']
      (initial True (Some ''42'')))) =
       [\<lparr>req_method = ''PATCH'', req_url = ''/api/users/42/password'',
         req_body = [(''currentPin'', ''0000''), (''newPin'', ''1234'')]\<rparr>]"
  using pin_request_payload
    [where ie = example_is_email and uid = "Some ''42''" and i = "''42''" and c = "''''"
       and d = "\<lparr>currentPassword = ''0000'', newPassword = ''1234'', confirmPassword = ''1234''\<rparr>"
       and s = "run example_is_email
          [Click_edit_profile, Click_tab Tab_password, Input_current_password ''0000'',
           Input_new_password ''1234'', Input_confirm_password ''1234'']
          (initial True (Some ''42''))"]
  by (simp add: render_defs submit_defs schema_defs example_defs setViewMode_def)

subsection \<open>Pending mutations and the submit buttons\<close>

lemma profile_pending_shown_step:
  "profileMutation_pending s \<and> profilePending s \<Longrightarrow> \<not> settles_profile e \<Longrightarrow>
     profileMutation_pending (step ie e s) \<and> profilePending (step ie e s)"
proof (cases e)
  case (PasswordSettled r)
  assume "profileMutation_pending s \<and> profilePending s"
  with PasswordSettled show ?thesis
    by (cases r) (simp_all add: handler_defs Let_def)
next
  case (QueryData p)
  assume "profileMutation_pending s \<and> profilePending s"
  with QueryData show ?thesis
    by (simp add: profileSyncEffect_def)
next
  case (OpenProp b)
  assume "profileMutation_pending s \<and> profilePending s"
  with OpenProp show ?thesis
    by (simp add: closeResetEffect_def setViewMode_def)
qed (simp_all add: render_defs submit_defs setViewMode_def handleClose_def)

lemma profile_pending_shown_run:
  "profileMutation_pending s \<and> profilePending s \<Longrightarrow> \<forall>e \<in> set es. \<not> settles_profile e \<Longrightarrow>
     profileMutation_pending (run ie es s) \<and> profilePending (run ie es s)"
proof (induction es arbitrary: s)
  case Nil
  then show ?case by simp
next
  case (Cons e es)
  then have "profileMutation_pending (step ie e s) \<and> profilePending (step ie e s)"
    by (simp add: profile_pending_shown_step)
  with Cons show ?case by simp
qed

lemma password_pending_shown_step:
  "passwordMutation_pending s \<and> passwordPending s \<Longrightarrow> \<not> settles_password e \<Longrightarrow>
     passwordMutation_pending (step ie e s) \<and> passwordPending (step ie e s)"
proof (cases e)
  case (ProfileSettled r)
  assume "passwordMutation_pending s \<and> passwordPending s"
  with ProfileSettled show ?thesis
    by (cases r) (simp_all add: handler_defs Let_def)
next
  case (QueryData p)
  assume "passwordMutation_pending s \<and> passwordPending s"
  with QueryData show ?thesis
    by (simp add: profileSyncEffect_def)
next
  case (OpenProp b)
  assume "passwordMutation_pending s \<and> passwordPending s"
  with OpenProp show ?thesis
    by (simp add: closeResetEffect_def setViewMode_def)
qed (simp_all add: render_defs submit_defs setViewMode_def handleClose_def)

lemma password_pending_shown_run:
  "passwordMutation_pending s \<and> passwordPending s \<Longrightarrow> \<forall>e \<in> set es. \<not> settles_password e \<Longrightarrow>
     passwordMutation_pending (run ie es s) \<and> passwordPending (run ie es s)"
proof (induction es arbitrary: s)
  case Nil
  then show ?case by simp
next
  case (Cons e es)
  then have "passwordMutation_pending (step ie e s) \<and> passwordPending (step ie e s)"
    by (simp add: password_pending_shown_step)
  with Cons show ?case by simp
qed

text \<open>
  Claim C9, as amended. Once the component has rendered while a pipeline's mutation is
  pending, that pipeline's submit button is disabled and labelled \<open>Saving...\<close>
  (\<open>Updating...\<close> for the PIN); rendered without a pending mutation it is enabled and
  labelled \<open>Save Changes\<close> (\<open>Update PIN\<close>). A click on a disabled button changes nothing.
  So after such a render, and whatever else happens, no further submission starts on that
  pipeline until its mutation settles; in particular a submit, a render and a second click
  issue one request. A button's disabled state does not depend on the other pipeline:
  while one button is disabled, the other form, when shown, enabled and valid, still
  submits and issues its request.
\<close>

theorem rendered_pending_disables_submit:
  "button_save_profile_disabled (step ie Render s) = profileMutation_pending s
   \<and> button_save_profile_label (step ie Render s) =
       (if profileMutation_pending s then ''Saving...'' else ''Save Changes'')
   \<and> button_update_password_disabled (step ie Render s) = passwordMutation_pending s
   \<and> button_update_password_label (step ie Render s) =
       (if passwordMutation_pending s then ''Updating...'' else ''Update PIN'')
   \<and> (button_save_profile_disabled s \<longrightarrow> step ie Click_save_profile s = s)
   \<and> (button_update_password_disabled s \<longrightarrow> step ie Click_update_password s = s)
   \<and> (profileMutation_pending s \<and> (\<forall>e \<in> set es. \<not> settles_profile e) \<longrightarrow>
        step ie Click_save_profile (run ie es (step ie Render s)) = run ie es (step ie Render s))
   \<and> (passwordMutation_pending s \<and> (\<forall>e \<in> set es. \<not> settles_password e) \<longrightarrow>
        step ie Click_update_password (run ie es (step ie Render s)) =
          run ie es (step ie Render s))
   \<and> (renders_profile_tab s \<and> \<not> button_save_profile_disabled s
        \<and> profileSchema ie (profileForm s) = [] \<longrightarrow>
        requests (run ie [Click_save_profile, Render, Click_save_profile] s) =
          requests s @ [updateProfileMutation_mutationFn (user_id s) (profileForm s)])
   \<and> (renders_password_tab s \<and> \<not> button_update_password_disabled s
        \<and> passwordSchema (passwordForm s) = [] \<longrightarrow>
        requests (run ie [Click_update_password, Render, Click_update_password] s) =
          requests s @ [updatePasswordMutation_mutationFn (user_id s) (passwordForm s)])
   \<and> button_update_password_disabled (step ie Render (s\<lparr>profileMutation_pending := b\<rparr>)) =
       button_update_password_disabled (step ie Render s)
   \<and> button_save_profile_disabled (step ie Render (s\<lparr>passwordMutation_pending := b\<rparr>)) =
       button_save_profile_disabled (step ie Render s)
   \<and> (button_save_profile_disabled s \<and> \<not> button_update_password_disabled s
        \<and> renders_password_tab s \<and> passwordSchema (passwordForm s) = [] \<longrightarrow>
        requests (step ie Click_update_password s) =
          requests s @ [updatePasswordMutation_mutationFn (user_id s) (passwordForm s)])
   \<and> (button_update_password_disabled s \<and> \<not> button_save_profile_disabled s
        \<and> renders_profile_tab s \<and> profileSchema ie (profileForm s) = [] \<longrightarrow>
        requests (step ie Click_save_profile s) =
          requests s @ [updateProfileMutation_mutationFn (user_id s) (profileForm s)])"
proof -
  have a: "step ie Click_save_profile (run ie es (step ie Render s)) = run ie es (step ie Render s)"
    if "profileMutation_pending s" and "\<forall>e \<in> set es. \<not> settles_profile e"
  proof -
    from that(1)
    have "profileMutation_pending (step ie Render s) \<and> profilePending (step ie Render s)"
      by simp
    from profile_pending_shown_run [OF this that(2)]
    have "profilePending (run ie es (step ie Render s))" by simp
    then show ?thesis by (simp add: button_save_profile_disabled_def)
  qed
  have b: "step ie Click_update_password (run ie es (step ie Render s)) =
      run ie es (step ie Render s)"
    if "passwordMutation_pending s" and "\<forall>e \<in> set es. \<not> settles_password e"
  proof -
    from that(1)
    have "passwordMutation_pending (step ie Render s) \<and> passwordPending (step ie Render s)"
      by simp
    from password_pending_shown_run [OF this that(2)]
    have "passwordPending (run ie es (step ie Render s))" by simp
    then show ?thesis by (simp add: button_update_password_disabled_def)
  qed
  have c: "button_save_profile_disabled (step ie Render s) = profileMutation_pending s
     \<and> button_save_profile_label (step ie Render s) =
         (if profileMutation_pending s then ''Saving...'' else ''Save Changes'')
     \<and> button_update_password_disabled (step ie Render s) = passwordMutation_pending s
     \<and> button_update_password_label (step ie Render s) =
         (if passwordMutation_pending s then ''Updating...'' else ''Update PIN'')
     \<and> (button_save_profile_disabled s \<longrightarrow> step ie Click_save_profile s = s)
     \<and> (button_update_password_disabled s \<longrightarrow> step ie Click_update_password s = s)"
    by (simp add: render_defs)
  have d: "(renders_profile_tab s \<and> \<not> button_save_profile_disabled s
        \<and> profileSchema ie (profileForm s) = [] \<longrightarrow>
        requests (run ie [Click_save_profile, Render, Click_save_profile] s) =
          requests s @ [updateProfileMutation_mutationFn (user_id s) (profileForm s)])
   \<and> (renders_password_tab s \<and> \<not> button_update_password_disabled s
        \<and> passwordSchema (passwordForm s) = [] \<longrightarrow>
        requests (run ie [Click_update_password, Render, Click_update_password] s) =
          requests s @ [updatePasswordMutation_mutationFn (user_id s) (passwordForm s)])"
    by (simp add: render_defs profileForm_handleSubmit_def passwordForm_handleSubmit_def
        onProfileSubmit_def onPasswordSubmit_def updateProfileMutation_mutate_def
        updatePasswordMutation_mutate_def)
  have e: "button_update_password_disabled (step ie Render (s\<lparr>profileMutation_pending := b\<rparr>)) =
       button_update_password_disabled (step ie Render s)
   \<and> button_save_profile_disabled (step ie Render (s\<lparr>passwordMutation_pending := b\<rparr>)) =
       button_save_profile_disabled (step ie Render s)
   \<and> (button_save_profile_disabled s \<and> \<not> button_update_password_disabled s
        \<and> renders_password_tab s \<and> passwordSchema (passwordForm s) = [] \<longrightarrow>
        requests (step ie Click_update_password s) =
          requests s @ [updatePasswordMutation_mutationFn (user_id s) (passwordForm s)])
   \<and> (button_update_password_disabled s \<and> \<not> button_save_profile_disabled s
        \<and> renders_profile_tab s \<and> profileSchema ie (profileForm s) = [] \<longrightarrow>
        requests (step ie Click_save_profile s) =
          requests s @ [updateProfileMutation_mutationFn (user_id s) (profileForm s)])"
    by (simp add: render_defs profileForm_handleSubmit_def passwordForm_handleSubmit_def
        onProfileSubmit_def onPasswordSubmit_def updateProfileMutation_mutate_def
        updatePasswordMutation_mutate_def)
  from a b c d e show ?thesis by blast
qed

theorem rendered_pending_disables_submit_witness:
  "profileMutation_pending (run example_is_email
      [Click_edit_profile, Click_save_profile, Render, Click_tab Tab_password,
       Input_current_password ''0000'', Input_new_password ''1234'',
       Input_confirm_password ''1234'']
      (initial True (Some ''42'')))
   \<and> button_save_profile_disabled (run example_is_email
      [Click_edit_profile, Click_save_profile, Render, Click_tab Tab_password,
       Input_current_password ''0000'', Input_new_password ''1234'',
       Input_confirm_password ''1234'']
      (initial True (Some ''42'')))
   \<and> \<not> button_update_password_disabled (run example_is_email
      [Click_edit_profile, Click_save_profile, Render, Click_tab Tab_password,
       Input_current_password ''0000'', Input_new_password ''1234'',
       Input_confirm_password ''1234'']
      (initial True (Some ''42'')))
   \<and> \<not> settles_profile (Click_tab Tab_profile) \<and> \<not> settles_profile (PasswordSettled (Inr ()))
   \<and> map req_url (requests (run example_is_email
      [Click_edit_profile, Click_save_profile, Render, Click_tab Tab_password,
       Input_current_password ''0000'', Input_new_password ''1234'',
       Input_confirm_password ''1234'', Render, Click_tab Tab_profile, Click_save_profile]
      (initial True (Some ''42'')))) = [''/api/users/42/profile'']
   \<and> map req_url (requests (run example_is_email
      [Click_edit_profile, Click_save_profile, Render, Click_tab Tab_password,
       Input_current_password ''0000'', Input_new_password ''1234'',
       Input_confirm_password ''1234'', Click_update_password, Render, Click_update_password]
      (initial True (Some ''42'')))) = [''/api/users/42/profile'', ''/api/users/42/password'']
   \<and> passwordMutation_pending (run example_is_email
      [Click_edit_profile, Click_tab Tab_password, Input_current_password ''0000'',
       Input_new_password ''1234'', Input_confirm_password ''1234'', Click_update_password,
       Render, Click_tab Tab_profile]
      (initial True (Some ''42'')))
   \<and> button_update_password_disabled (run example_is_email
      [Click_edit_profile, Click_tab Tab_password, Input_current_password ''0000'',
       Input_new_password ''1234'', Input_confirm_password ''1234'', Click_update_password,
       Render, Click_tab Tab_profile]
      (initial True (Some ''42'')))
   \<and> \<not> button_save_profile_disabled (run example_is_email
      [Click_edit_profile, Click_tab Tab_password, Input_current_password ''0000'',
       Input_new_password ''1234'', Input_confirm_password ''1234'', Click_update_password,
       Render, Click_tab Tab_profile]
      (initial True (Some ''42'')))
   \<and> \<not> settles_password (Click_tab Tab_password) \<and> \<not> settles_password (ProfileSettled (Inl ''x''))
   \<and> map req_url (requests (run example_is_email
      [Click_edit_profile, Click_tab Tab_password, Input_current_password ''0000'',
       Input_new_password ''1234'', Input_confirm_password ''1234'', Click_update_password,
       Render, Click_tab Tab_profile, Render, Click_tab Tab_password, Click_update_password]
      (initial True (Some ''42'')))) = [''/api/users/42/password'']
   \<and> map req_url (requests (run example_is_email
      [Click_edit_profile, Click_tab Tab_password, Input_current_password ''0000'',
       Input_new_password ''1234'', Input_confirm_password ''1234'', Click_update_password,
       Render, Click_tab Tab_profile, Click_save_profile, Render, Click_save_profile]
      (initial True (Some ''42'')))) = [''/api/users/42/password'', ''/api/users/42/profile'']"
  using rendered_pending_disables_submit
    [where ie = example_is_email and b = True
       and es = "[Click_tab Tab_profile, PasswordSettled (Inr ())]"
       and s = "run example_is_email
          [Click_edit_profile, Click_save_profile, Render, Click_tab Tab_password,
           Input_current_password ''0000'', Input_new_password ''1234'',
           Input_confirm_password ''1234'']
          (initial True (Some ''42''))"]
    rendered_pending_disables_submit
    [where ie = example_is_email and b = True
       and es = "[Click_tab Tab_password, ProfileSettled (Inl ''x'')]"
       and s = "run example_is_email
          [Click_edit_profile, Click_tab Tab_password, Input_current_password ''0000'',
           Input_new_password ''1234'', Input_confirm_password ''1234'', Click_update_password,
           Render, Click_tab Tab_profile]
          (initial True (Some ''42''))"]
  by (simp add: render_defs submit_defs schema_defs example_defs setViewMode_def)

text \<open>
  The claim as first stated fails: the submit handlers have no guard of their own, and
  the button is disabled only by a render. After a first click on the save button the
  profile mutation is pending while the button is still enabled, and a second click
  before the next render starts a second submission: two requests are issued.
\<close>

theorem pending_submit_counterexample:
  "profileMutation_pending (run example_is_email [Click_edit_profile, Click_save_profile]
      (initial True (Some ''42'')))
   \<and> \<not> button_save_profile_disabled (run example_is_email
      [Click_edit_profile, Click_save_profile] (initial True (Some ''42'')))
   \<and> requests (run example_is_email [Click_edit_profile, Click_save_profile, Click_save_profile]
      (initial True (Some ''42''))) =
     [\<lparr>req_method = ''PATCH'', req_url = ''/api/users/42/profile'',
       req_body = [(''fullName'', ''''), (''email'', ''''), (''mobile'', '''')]\<rparr>,
      \<lparr>req_method = ''PATCH'', req_url = ''/api/users/42/profile'',
       req_body = [(''fullName'', ''''), (''email'', ''''), (''mobile'', '''')]\<rparr>]"
  by (simp add: render_defs submit_defs schema_defs example_defs setViewMode_def)

subsection \<open>Closing and re-opening the dialog\<close>

lemma closed_view_close: "dialog_open s \<Longrightarrow> closed_view (step ie (OpenProp False) s)"
  by (simp add: closed_view_def closeResetEffect_def setViewMode_def)

lemma closed_view_step:
  "closed_view s \<Longrightarrow> e \<noteq> OpenProp True \<Longrightarrow> closed_view (step ie e s)"
proof (cases e)
  case (OpenProp b)
  assume "closed_view s" "e \<noteq> OpenProp True"
  with OpenProp show ?thesis by (simp add: closed_view_def)
next
  case (ProfileSettled r)
  assume "closed_view s"
  with ProfileSettled show ?thesis
    by (cases r) (simp_all add: closed_view_def handler_defs Let_def)
next
  case (PasswordSettled r)
  assume "closed_view s"
  with PasswordSettled show ?thesis
    by (cases r) (simp_all add: closed_view_def handler_defs Let_def)
next
  case (QueryData p)
  assume "closed_view s"
  with QueryData show ?thesis
    by (simp add: closed_view_def profileSyncEffect_def)
qed (simp_all add: closed_view_def render_defs)

lemma closed_view_run:
  "closed_view s \<Longrightarrow> OpenProp True \<notin> set es \<Longrightarrow> closed_view (run ie es s)"
proof (induction es arbitrary: s)
  case Nil
  then show ?case by simp
next
  case (Cons e es)
  from Cons.prems have "e \<noteq> OpenProp True" and rest: "OpenProp True \<notin> set es"
    by auto
  with Cons.prems(1) have "closed_view (step ie e s)"
    by (simp add: closed_view_step)
  with rest show ?case
    by (simp add: Cons.IH)
qed

lemma closed_view_reopen: "closed_view s \<Longrightarrow> mode_of (step ie (OpenProp True) s) = View"
  by (simp add: closed_view_def closeResetEffect_def mode_of_def)

text \<open>
  Claim C6. From every state in which the dialog is open (any view mode, tab, form
  contents and pending flags), the change of \<open>open\<close> to false gives mode \<open>View\<close> and the
  PIN form \<open>{"", "", ""}\<close>. Whatever happens while the dialog stays closed, the next
  opening shows mode \<open>View\<close>. A successful PIN update also leaves the PIN form empty.
\<close>

theorem close_resets:
  "dialog_open s \<Longrightarrow>
     mode_of (step ie (OpenProp False) s) = View
     \<and> passwordForm (step ie (OpenProp False) s) =
           \<lparr>currentPassword = '''', newPassword = '''', confirmPassword = ''''\<rparr>
     \<and> (OpenProp True \<notin> set es \<longrightarrow>
           passwordForm (run ie es (step ie (OpenProp False) s)) =
             \<lparr>currentPassword = '''', newPassword = '''', confirmPassword = ''''\<rparr>
           \<and> mode_of (step ie (OpenProp True) (run ie es (step ie (OpenProp False) s))) = View)
     \<and> passwordForm (updatePasswordMutation_settled (Inr u) s) =
           \<lparr>currentPassword = '''', newPassword = '''', confirmPassword = ''''\<rparr>"
proof -
  assume "dialog_open s"
  then have c: "closed_view (step ie (OpenProp False) s)"
    by (rule closed_view_close)
  then have 1: "mode_of (step ie (OpenProp False) s) = View"
    by (simp add: closed_view_def mode_of_def)
  from c have 2: "passwordForm (step ie (OpenProp False) s) =
           \<lparr>currentPassword = '''', newPassword = '''', confirmPassword = ''''\<rparr>"
    by (simp add: closed_view_def passwordForm_defaultValues_def)
  have 3: "passwordForm (run ie es (step ie (OpenProp False) s)) =
             \<lparr>currentPassword = '''', newPassword = '''', confirmPassword = ''''\<rparr>
           \<and> mode_of (step ie (OpenProp True) (run ie es (step ie (OpenProp False) s))) = View"
    if n: "OpenProp True \<notin> set es"
  proof -
    from c n have r: "closed_view (run ie es (step ie (OpenProp False) s))"
      by (rule closed_view_run)
    then have "passwordForm (run ie es (step ie (OpenProp False) s)) =
             \<lparr>currentPassword = '''', newPassword = '''', confirmPassword = ''''\<rparr>"
      by (simp add: closed_view_def passwordForm_defaultValues_def)
    moreover from r
    have "mode_of (step ie (OpenProp True) (run ie es (step ie (OpenProp False) s))) = View"
      by (rule closed_view_reopen)
    ultimately show ?thesis by simp
  qed
  have 4: "passwordForm (updatePasswordMutation_settled (Inr u) s) =
           \<lparr>currentPassword = '''', newPassword = '''', confirmPassword = ''''\<rparr>"
    by (simp add: handler_defs Let_def)
  from 1 2 3 4 show ?thesis by blast
qed

theorem close_resets_witness:
  "dialog_open (run example_is_email
      [Click_edit_profile, Click_tab Tab_password, Input_new_password ''12'']
      (initial True (Some ''42'')))
   \<and> mode_of (run example_is_email
      [Click_edit_profile, Click_tab Tab_password, Input_new_password ''12'']
      (initial True (Some ''42''))) = EditPin
   \<and> newPassword (passwordForm (run example_is_email
      [Click_edit_profile, Click_tab Tab_password, Input_new_password ''12'']
      (initial True (Some ''42'')))) = ''12''
   \<and> OpenProp True \<notin> set [Click_edit_profile, PasswordSettled (Inl ''x''), OpenProp False]
   \<and> mode_of (step example_is_email (OpenProp False) (run example_is_email
      [Click_edit_profile, Click_tab Tab_password, Input_new_password ''12'']
      (initial True (Some ''42'')))) = View
   \<and> passwordForm (step example_is_email (OpenProp False) (run example_is_email
      [Click_edit_profile, Click_tab Tab_password, Input_new_password ''12'']
      (initial True (Some ''42'')))) =
       \<lparr>currentPassword = '''', newPassword = '''', confirmPassword = ''''\<rparr>
   \<and> mode_of (step example_is_email (OpenProp True)
       (run example_is_email [Click_edit_profile, PasswordSettled (Inl ''x''), OpenProp False]
         (step example_is_email (OpenProp False) (run example_is_email
            [Click_edit_profile, Click_tab Tab_password, Input_new_password ''12'']
            (initial True (Some ''42'')))))) = View"
  using close_resets
    [where ie = example_is_email and u = "()"
       and es = "[Click_edit_profile, PasswordSettled (Inl ''x''), OpenProp False]"
       and s = "run example_is_email
          [Click_edit_profile, Click_tab Tab_password, Input_new_password ''12'']
          (initial True (Some ''42''))"]
  by (simp add: handler_defs render_defs example_defs)

lemma closed_step_profileForm:
  "\<not> dialog_open s \<Longrightarrow> \<not> resets_profileForm (userProfile s) e \<Longrightarrow> e \<noteq> OpenProp True \<Longrightarrow>
     profileForm (step ie e s) = profileForm s \<and> \<not> dialog_open (step ie e s)
     \<and> userProfile (step ie e s) = userProfile s"
proof (cases e)
  case (PasswordSettled r)
  assume "\<not> dialog_open s"
  with PasswordSettled show ?thesis
    by (cases r) (simp_all add: handler_defs Let_def)
next
  case (ProfileSettled r)
  assume "\<not> dialog_open s" "\<not> resets_profileForm (userProfile s) e"
  with ProfileSettled show ?thesis
    by (cases r) (simp_all add: handler_defs)
qed (simp_all add: render_defs)

lemma closed_run_profileForm:
  "\<not> dialog_open s \<Longrightarrow>
     \<forall>e \<in> set es. \<not> resets_profileForm (userProfile s) e \<and> e \<noteq> OpenProp True \<Longrightarrow>
     profileForm (run ie es s) = profileForm s \<and> \<not> dialog_open (run ie es s)"
proof (induction es arbitrary: s)
  case Nil
  then show ?case by simp
next
  case (Cons e es)
  then have st: "profileForm (step ie e s) = profileForm s \<and> \<not> dialog_open (step ie e s)
      \<and> userProfile (step ie e s) = userProfile s"
    by (simp add: closed_step_profileForm)
  with Cons.prems
  have "\<forall>x \<in> set es. \<not> resets_profileForm (userProfile (step ie e s)) x \<and> x \<noteq> OpenProp True"
    by simp
  with st Cons.IH [of "step ie e s"] show ?case by simp
qed

text \<open>
  Claim C10, as amended. Closing the dialog leaves the profile form unchanged, through the
  close effect as well as through \<open>handleClose\<close> and the dialog's own dismissal: only the
  view mode and the PIN form are reset. The unsaved values are still there after the
  dialog is opened again, unless in between a fetch has resolved with a record other than
  the one held, or a profile update that was still pending has succeeded. A failed profile
  update, a fetch resolving with the record already held and every other event leave them
  in place.
\<close>

theorem close_keeps_profileForm:
  "dialog_open s \<Longrightarrow>
     profileForm (step ie (OpenProp False) s) = profileForm s
     \<and> profileForm (handleClose s) = profileForm s
     \<and> profileForm (step ie Click_close_profile s) = profileForm s
     \<and> profileForm (step ie DialogDismiss s) = profileForm s
     \<and> ((\<forall>e \<in> set es. \<not> resets_profileForm (userProfile s) e \<and> e \<noteq> OpenProp True) \<longrightarrow>
          profileForm (step ie (OpenProp True) (run ie es (step ie (OpenProp False) s))) =
            profileForm s)"
proof -
  assume o: "dialog_open s"
  let ?c = "step ie (OpenProp False) s"
  from o have 1: "profileForm ?c = profileForm s" and cl: "\<not> dialog_open ?c"
    and u: "userProfile ?c = userProfile s"
    by (simp_all add: closeResetEffect_def setViewMode_def)
  have 2: "profileForm (handleClose s) = profileForm s"
    by (simp add: handleClose_def setViewMode_def)
  then have 4: "profileForm (step ie Click_close_profile s) = profileForm s"
    by simp
  have 5: "profileForm (step ie DialogDismiss s) = profileForm s"
    by simp
  have 3: "profileForm (step ie (OpenProp True) (run ie es ?c)) = profileForm s"
    if h: "\<forall>e \<in> set es. \<not> resets_profileForm (userProfile s) e \<and> e \<noteq> OpenProp True"
  proof -
    from h u have "\<forall>e \<in> set es. \<not> resets_profileForm (userProfile ?c) e \<and> e \<noteq> OpenProp True"
      by simp
    from closed_run_profileForm [OF cl this]
    have "profileForm (run ie es ?c) = profileForm ?c" by simp
    with 1 show ?thesis by (simp add: closeResetEffect_def)
  qed
  from 1 2 3 4 5 show ?thesis by blast
qed

theorem close_keeps_profileForm_witness:
  "dialog_open (run example_is_email
      [QueryData \<lparr>profile_fullName = Some ''Old'', profile_email = None,
                  profile_mobile = None, profile_lastLogin = None\<rparr>,
       Click_edit_profile, Click_save_profile, Input_fullname ''New'']
      (initial True (Some ''42'')))
   \<and> \<not> resets_profileForm
        (Some \<lparr>profile_fullName = Some ''Old'', profile_email = None,
               profile_mobile = None, profile_lastLogin = None\<rparr>)
        (ProfileSettled (Inl ''500: down''))
   \<and> \<not> resets_profileForm
        (Some \<lparr>profile_fullName = Some ''Old'', profile_email = None,
               profile_mobile = None, profile_lastLogin = None\<rparr>)
        (QueryData \<lparr>profile_fullName = Some ''Old'', profile_email = None,
                    profile_mobile = None, profile_lastLogin = None\<rparr>)
   \<and> toasts (run example_is_email
       [ProfileSettled (Inl ''500: down''),
        QueryData \<lparr>profile_fullName = Some ''Old'', profile_email = None,
                   profile_mobile = None, profile_lastLogin = None\<rparr>,
        Click_edit_profile]
       (step example_is_email (OpenProp False)
         (run example_is_email
            [QueryData \<lparr>profile_fullName = Some ''Old'', profile_email = None,
                        profile_mobile = None, profile_lastLogin = None\<rparr>,
             Click_edit_profile, Click_save_profile, Input_fullname ''New'']
            (initial True (Some ''42''))))) =
       [\<lparr>title = ''Error updating profile'', description = Some ''500: down'',
         variant = Some ''destructive''\<rparr>]
   \<and> profileForm (step example_is_email (OpenProp True)
       (run example_is_email
         [ProfileSettled (Inl ''500: down''),
          QueryData \<lparr>profile_fullName = Some ''Old'', profile_email = None,
                     profile_mobile = None, profile_lastLogin = None\<rparr>,
          Click_edit_profile]
         (step example_is_email (OpenProp False)
           (run example_is_email
              [QueryData \<lparr>profile_fullName = Some ''Old'', profile_email = None,
                          profile_mobile = None, profile_lastLogin = None\<rparr>,
               Click_edit_profile, Click_save_profile, Input_fullname ''New'']
              (initial True (Some ''42'')))))) =
       \<lparr>fullName = Some ''New'', email = Some '''', mobile = Some ''''\<rparr>"
  using close_keeps_profileForm
    [where ie = example_is_email
       and es = "[ProfileSettled (Inl ''500: down''),
          QueryData \<lparr>profile_fullName = Some ''Old'', profile_email = None,
                     profile_mobile = None, profile_lastLogin = None\<rparr>,
          Click_edit_profile]"
       and s = "run example_is_email
              [QueryData \<lparr>profile_fullName = Some ''Old'', profile_email = None,
                          profile_mobile = None, profile_lastLogin = None\<rparr>,
               Click_edit_profile, Click_save_profile, Input_fullname ''New'']
              (initial True (Some ''42''))"]
  by (simp add: handler_defs render_defs submit_defs schema_defs example_defs)

text \<open>
  The claim as first stated fails: it lets only a fresh fetch overwrite the unsaved
  values. The user saves \<open>Jane\<close>, types \<open>Janet\<close> while the update is pending and closes
  the dialog; the update succeeds while the dialog is closed. On re-opening, with no fetch
  in between, the form holds the \<open>Jane\<close> of the response, not the unsaved \<open>Janet\<close>.
\<close>

theorem close_keeps_profileForm_counterexample:
  "fullName (profileForm (run example_is_email
      [Click_edit_profile, Input_fullname ''Jane'', Click_save_profile, Input_fullname ''Janet'',
       OpenProp False]
      (initial True (Some ''42'')))) = Some ''Janet''
   \<and> fullName (profileForm (run example_is_email
      [Click_edit_profile, Input_fullname ''Jane'', Click_save_profile, Input_fullname ''Janet'',
       OpenProp False,
       ProfileSettled (Inr \<lparr>profile_fullName = Some ''Jane'', profile_email = None,
                            profile_mobile = None, profile_lastLogin = None\<rparr>),
       OpenProp True]
      (initial True (Some ''42'')))) = Some ''Jane''"
  by (simp add: handler_defs render_defs submit_defs schema_defs example_defs Let_def)

end
